theory Spec2Isabelle
  imports Main "HOL-Library.Char_ord" "HOL-Library.List_Lexorder"
begin

section \<open>Formamentis networks\<close>

text \<open>
  A formamentis network is the named tuple \<^verbatim>\<open>FormamentisNetwork(edges, vertices)\<close>.
  An edge is a pair of words. The edge collection is either a list of edges (the flat
  shape) or a dict from edge kind to a list of edges (the multiplex shape); the source
  tells the two apart with \<^verbatim>\<open>type(fmn.edges) != dict\<close>, the model with a constructor.
  A dict is modelled by the list of its items in insertion order, which is the order
  in which \<^verbatim>\<open>list(fmn.edges.keys())\<close> enumerates the keys.

  The type of the vertex collection is a parameter of the record:
  \<^verbatim>\<open>extract_word_from_formamentis\<close> returns \<^verbatim>\<open>list(final_vertex)\<close>, the elements of a
  Python set in an order the language does not fix, so the model keeps the set;
  \<^verbatim>\<open>import_formamentis\<close> returns a sorted list.
\<close>

type_synonym word = string
type_synonym edge = "word \<times> word"

datatype edge_collection =
    Flat "edge list"
  | Multiplex "(string \<times> edge list) list"

record 'v FormamentisNetwork =
  edges :: edge_collection
  vertices :: 'v

subsection \<open>extract_word_from_formamentis\<close>

text \<open>\<^verbatim>\<open>target_word in edge\<close>, for an edge that is a 2-tuple.\<close>

definition word_in_edge :: "word \<Rightarrow> edge \<Rightarrow> bool" where
  "word_in_edge target_word e = (target_word = fst e \<or> target_word = snd e)"

text \<open>\<^verbatim>\<open>itertools.chain(*new_edgelist)\<close>: the endpoints of the edges, one after the other.\<close>

definition chain :: "edge list \<Rightarrow> word list" where
  "chain es = concat (map (\<lambda>e. [fst e, snd e]) es)"

text \<open>\<^verbatim>\<open>(edge[0] in final_vertex) and (edge[1] in final_vertex)\<close>\<close>

definition both_in :: "word set \<Rightarrow> edge \<Rightarrow> bool" where
  "both_in final_vertex e = (fst e \<in> final_vertex \<and> snd e \<in> final_vertex)"

text \<open>
  The first loop of the multiplex branch:
  \<^verbatim>\<open>for edge_type in edge_types: final_vertex = final_vertex | set(chain(*[edge for edge in fmn.edges[edge_type] if target_word in edge]))\<close>
\<close>

fun collect_vertices :: "word \<Rightarrow> (string \<times> edge list) list \<Rightarrow> word set \<Rightarrow> word set" where
  "collect_vertices target_word [] final_vertex = final_vertex"
| "collect_vertices target_word ((edge_type, es) # rest) final_vertex =
     collect_vertices target_word rest
       (final_vertex \<union> set (chain (filter (word_in_edge target_word) es)))"

text \<open>
  The second loop of the multiplex branch, which fills the dict \<^verbatim>\<open>final_edgelist\<close>,
  empty at first, one kind after the other:
  \<^verbatim>\<open>final_edgelist[edge_type] = [edge for edge in fmn.edges[edge_type] if ...]\<close>
\<close>

fun collect_edges ::
  "word set \<Rightarrow> (string \<times> edge list) list \<Rightarrow> (string \<times> edge list) list
     \<Rightarrow> (string \<times> edge list) list" where
  "collect_edges final_vertex [] final_edgelist = final_edgelist"
| "collect_edges final_vertex ((edge_type, es) # rest) final_edgelist =
     collect_edges final_vertex rest
       (final_edgelist @ [(edge_type, filter (both_in final_vertex) es)])"

definition extract_word_from_formamentis ::
  "'v FormamentisNetwork \<Rightarrow> word \<Rightarrow> word set FormamentisNetwork" where
  "extract_word_from_formamentis fmn target_word =
     (case edges fmn of
        Flat es \<Rightarrow>
          (let new_edgelist = filter (word_in_edge target_word) es;
               final_vertex = set (chain new_edgelist);
               final_edgelist = filter (both_in final_vertex) es
           in \<lparr>edges = Flat final_edgelist, vertices = final_vertex\<rparr>)
      | Multiplex d \<Rightarrow>
          (let final_vertex = collect_vertices target_word d {};
               final_edgelist = collect_edges final_vertex d []
           in \<lparr>edges = Multiplex final_edgelist, vertices = final_vertex\<rparr>))"

subsection \<open>The restriction in the words of the specification\<close>

text \<open>
  The edges incident to the target, the union of the endpoints of a set of edges, and
  the edges of a list whose two endpoints lie in a vertex set.
\<close>

definition incident_edges :: "word \<Rightarrow> edge list \<Rightarrow> edge set" where
  "incident_edges target_word es = {e \<in> set es. fst e = target_word \<or> snd e = target_word}"

definition endpoints :: "edge set \<Rightarrow> word set" where
  "endpoints E = fst ` E \<union> snd ` E"

definition edges_within :: "word set \<Rightarrow> edge list \<Rightarrow> edge list" where
  "edges_within V es = filter (\<lambda>e. fst e \<in> V \<and> snd e \<in> V) es"

text \<open>All the edges of a multiplex network, over every kind.\<close>

definition all_kinds_incident :: "word \<Rightarrow> (string \<times> edge list) list \<Rightarrow> edge set" where
  "all_kinds_incident target_word d = \<Union> (incident_edges target_word ` snd ` set d)"

text \<open>Every edge of a network, whatever its shape.\<close>

fun all_edges :: "edge_collection \<Rightarrow> edge list" where
  "all_edges (Flat es) = es"
| "all_edges (Multiplex d) = concat (map snd d)"

section \<open>Edge-list files\<close>

text \<open>
  The exceptions the modelled code can raise. A function that may raise returns a sum,
  with the exception on the left.
\<close>

datatype error = AttributeError | ValueError | IndexError | TypeError | FileNotFoundError

text \<open>
  A Python string is a list of characters; the 256 characters of the model are the code
  points 0 to 255. The characters that \<^verbatim>\<open>str.isspace\<close> accepts in that range are listed
  in \<open>whitespace\<close>.
\<close>

definition comma :: char where
  "comma = CHR '',''"

definition LF :: char where
  "LF = CHR 0x0A"

definition CR :: char where
  "CR = CHR 0x0D"

definition whitespace :: "char list" where
  "whitespace = [CHR 0x09, CHR 0x0A, CHR 0x0B, CHR 0x0C, CHR 0x0D, CHR 0x1C, CHR 0x1D,
     CHR 0x1E, CHR 0x1F, CHR 0x20, CHR 0x85, CHR 0xA0]"

definition isspace :: "char \<Rightarrow> bool" where
  "isspace c = (c \<in> set whitespace)"

text \<open>\<^verbatim>\<open>str.strip()\<close>: drop the whitespace at both ends.\<close>

definition strip :: "string \<Rightarrow> string" where
  "strip s = rev (dropWhile isspace (rev (dropWhile isspace s)))"

text \<open>\<^verbatim>\<open>s.split(sep)\<close> for a separator of one character: always at least one part.\<close>

fun split :: "char \<Rightarrow> string \<Rightarrow> string list" where
  "split sep [] = [[]]"
| "split sep (c # cs) =
     (if c = sep then [] # split sep cs
      else (case split sep cs of [] \<Rightarrow> [[c]] | part # parts \<Rightarrow> (c # part) # parts))"

text \<open>
  A file opened with \<^verbatim>\<open>open(filepath, "r")\<close> is read in universal-newlines mode: a
  carriage return followed by a line feed, and a carriage return alone, reach the
  program as one line feed.
\<close>

fun universal_newlines :: "string \<Rightarrow> string" where
  "universal_newlines [] = []"
| "universal_newlines [c] = (if c = CR then [LF] else [c])"
| "universal_newlines (c # c' # cs) =
     (if c = CR \<and> c' = LF then LF # universal_newlines cs
      else if c = CR then LF # universal_newlines (c' # cs)
      else c # universal_newlines (c' # cs))"

text \<open>
  \<^verbatim>\<open>for line in file\<close>: the text cut after each line feed; every line keeps its line
  feed, and a last line without one is a line too.
\<close>

fun file_lines :: "string \<Rightarrow> string list" where
  "file_lines [] = []"
| "file_lines (c # cs) =
     (if c = LF then [c] # file_lines cs
      else (case file_lines cs of [] \<Rightarrow> [[c]] | line # lines \<Rightarrow> (c # line) # lines))"

text \<open>\<^verbatim>\<open>s.endswith(suffix)\<close>\<close>

definition endswith :: "string \<Rightarrow> string \<Rightarrow> bool" where
  "endswith s suffix =
     (length suffix \<le> length s \<and> drop (length s - length suffix) s = suffix)"

text \<open>\<^verbatim>\<open>os.path.join(a, b)\<close> on a POSIX system.\<close>

definition os_path_join :: "string \<Rightarrow> string \<Rightarrow> string" where
  "os_path_join a b =
     (if b \<noteq> [] \<and> hd b = CHR ''/'' then b
      else if a = [] \<or> last a = CHR ''/'' then a @ b
      else a @ ''/'' @ b)"

text \<open>
  The file system is a map from paths to the text of the file; writing a file that is
  opened with \<^verbatim>\<open>open(filepath, "w")\<close> replaces its text. On a POSIX system the line feed
  is written as it is.
\<close>

type_synonym files = "string \<rightharpoonup> string"

subsection \<open>export_formamentis\<close>

text \<open>
  The path that \<^verbatim>\<open>export_formamentis\<close> writes to; \<open>cwd\<close> is the value of
  \<^verbatim>\<open>os.getcwd()\<close>.
\<close>

definition export_filepath :: "string \<Rightarrow> string option \<Rightarrow> string option \<Rightarrow> string" where
  "export_filepath cwd filename path =
     (let filename = (case filename of
                        None \<Rightarrow> ''extracted formamentis.txt''
                      | Some f \<Rightarrow> if \<not> endswith f ''.txt'' then f @ ''.txt'' else f);
          path = (case path of None \<Rightarrow> cwd | Some p \<Rightarrow> p)
      in os_path_join path filename)"

text \<open>\<^verbatim>\<open>f"{pair[0]} , {pair[1]}\n"\<close>\<close>

definition edge_line :: "string \<Rightarrow> string \<Rightarrow> string" where
  "edge_line a b = a @ '' , '' @ b @ [LF]"

text \<open>The loop \<^verbatim>\<open>for pair in edges: file.write(...)\<close> over a list of edges.\<close>

fun write_pairs :: "edge list \<Rightarrow> string" where
  "write_pairs [] = []"
| "write_pairs (pair # rest) = edge_line (fst pair) (snd pair) @ write_pairs rest"

text \<open>
  The same loop over a dict iterates over its keys, and \<^verbatim>\<open>pair[0]\<close>, \<^verbatim>\<open>pair[1]\<close> are
  the first two characters of a key; a shorter key raises IndexError, after the lines
  of the keys before it have been written.
\<close>

fun write_keys :: "string list \<Rightarrow> string \<times> error option" where
  "write_keys [] = ([], None)"
| "write_keys (pair # rest) =
     (case pair of
        c0 # c1 # _ \<Rightarrow>
          (case write_keys rest of (text, err) \<Rightarrow> (edge_line [c0] [c1] @ text, err))
      | _ \<Rightarrow> ([], Some IndexError))"

text \<open>
  \<^verbatim>\<open>open(filepath, "w")\<close> may raise: FileNotFoundError when the directory of the path
  does not exist, for one. What it does on a path is a matter of the system and a
  parameter of the model: \<open>open_w filepath\<close> is the exception raised, or \<open>None\<close> when the
  file is opened, which creates or empties it. When \<^verbatim>\<open>open\<close> raises, nothing is written.
  The result is the exception raised, if any, and the file system after the call.
\<close>

definition export_formamentis ::
  "string \<Rightarrow> (string \<Rightarrow> error option) \<Rightarrow> files \<Rightarrow> 'v FormamentisNetwork \<Rightarrow> string option
     \<Rightarrow> string option \<Rightarrow> error option \<times> files" where
  "export_formamentis cwd open_w fs fmnt filename path =
     (let filepath = export_filepath cwd filename path
      in case open_w filepath of
           Some e \<Rightarrow> (Some e, fs)
         | None \<Rightarrow>
             (let (text, err) = (case edges fmnt of
                                   Flat es \<Rightarrow> (write_pairs es, None)
                                 | Multiplex d \<Rightarrow> write_keys (map fst d))
              in (err, fs(filepath \<mapsto> text))))"

text \<open>
  A system for the examples: a file can be opened for writing when it lies in the
  directory \<open>/home\<close>, and no other directory exists.
\<close>

definition home_only :: "string \<Rightarrow> error option" where
  "home_only filepath = (if take 6 filepath = ''/home/'' then None else Some FileNotFoundError)"

subsection \<open>import_formamentis\<close>

text \<open>
  The loop over the lines:
  \<^verbatim>\<open>vertex1, vertex2 = map(str.strip, line.split(","))\<close> raises ValueError unless the
  line has exactly two parts; then the edge is appended and the two vertices are added
  to the set.
\<close>

fun import_lines ::
  "string list \<Rightarrow> edge list \<Rightarrow> word set \<Rightarrow> error + edge list \<times> word set" where
  "import_lines [] edges' vertices' = Inr (edges', vertices')"
| "import_lines (line # rest) edges' vertices' =
     (case map strip (split comma line) of
        [vertex1, vertex2] \<Rightarrow>
          import_lines rest (edges' @ [(vertex1, vertex2)]) (vertices' \<union> {vertex1, vertex2})
      | _ \<Rightarrow> Inl ValueError)"

text \<open>
  \<^verbatim>\<open>open(None, "r")\<close> raises TypeError, a path without a file FileNotFoundError.
  \<^verbatim>\<open>sorted(vertices)\<close> is the sorted list of the elements of the set; strings are
  compared character by character, by code point.
\<close>

definition import_formamentis ::
  "files \<Rightarrow> string option \<Rightarrow> error + string list FormamentisNetwork" where
  "import_formamentis fs filepath =
     (case filepath of
        None \<Rightarrow> Inl TypeError
      | Some p \<Rightarrow>
          (case fs p of
             None \<Rightarrow> Inl FileNotFoundError
           | Some content \<Rightarrow>
               (case import_lines (file_lines (universal_newlines content)) [] {} of
                  Inl e \<Rightarrow> Inl e
                | Inr (edges', vertices') \<Rightarrow>
                    Inr \<lparr>edges = Flat edges', vertices = sorted_list_of_set vertices'\<rparr>)))"

subsection \<open>The file format in the words of the specification\<close>

text \<open>
  A line of a well-formed file holds one edge: two words separated by one comma. The
  edge of a line is the text before the comma and the text after it, both without the
  surrounding whitespace; the edges of a file are the edges of its lines, in order.
\<close>

definition one_comma :: "string \<Rightarrow> bool" where
  "one_comma line = (count_list line comma = 1)"

definition edge_of_line :: "string \<Rightarrow> edge" where
  "edge_of_line line =
     (strip (takeWhile (\<lambda>c. c \<noteq> comma) line),
      strip (tl (dropWhile (\<lambda>c. c \<noteq> comma) line)))"

definition file_edges :: "string \<Rightarrow> edge list" where
  "file_edges content = map edge_of_line (file_lines (universal_newlines content))"





section \<open>The scorer\<close>

text \<open>
  The baseline argument of \<^verbatim>\<open>set_baseline\<close> and \<^verbatim>\<open>zscores\<close> is \<^verbatim>\<open>None\<close>, a text or a
  list of lists. Python takes \<^verbatim>\<open>None\<close>, the empty string and the empty list for false.
\<close>

datatype 'a baseline_arg = NoneArg | TextArg string | ListArg "'a list"

fun arg_truthy :: "'a baseline_arg \<Rightarrow> bool" where
  "arg_truthy NoneArg = False"
| "arg_truthy (TextArg text) = (text \<noteq> [])"
| "arg_truthy (ListArg rows) = (rows \<noteq> [])"

text \<open>
  The modules \<^verbatim>\<open>emoatlas.resources\<close>, \<^verbatim>\<open>emoatlas.baselines\<close> and \<^verbatim>\<open>emoatlas.emo_scores\<close>
  are collaborators of the class: the model takes their functions as parameters, in
  the record \<open>modules\<close>, and keeps what they return in types of its own (\<open>'r\<close> for a
  loaded table, \<open>'m\<close> for a tagger or a stemmer, \<open>'b\<close> for a baseline, \<open>'st\<close> for the
  statistics of a null sample, \<open>'o\<close> for the text or network that is scored, \<open>'e\<close> and
  \<open>'z\<close> for the results). A call to a collaborator returns. The arguments of a call
  are a record; an argument that the call site leaves out is \<open>None\<close>.
  \<open>truthy\<close> is the truth value Python gives a baseline.
\<close>

datatype spacy_request = ByLanguage string | ByModel string

record ('a, 'r, 'm) make_baseline_args =
  mb_baseline :: "'a baseline_arg option"
  mb_language :: "string option"
  mb_emotion_lexicon :: "'r option"
  mb_tagger :: "'m option option"
  mb_emojis_dict :: "'r option"
  mb_idiomatic_tokens :: "'r option"

record ('o, 'r, 'm) get_emotions_args =
  ge_obj :: 'o
  ge_normalization_strategy :: string
  ge_emotion_lexicon :: 'r
  ge_language :: string
  ge_tagger :: "'m option"
  ge_emotions :: "string list"
  ge_return_words :: bool
  ge_emojis_dict :: 'r
  ge_convert_emojis :: bool
  ge_idiomatic_tokens :: 'r

record ('o, 'r, 'm, 'b, 'st) zscores_args =
  zs_obj :: 'o
  zs_baseline :: 'b
  zs_n_samples :: int
  zs_emotion_lexicon :: 'r
  zs_language :: string
  zs_tagger :: "'m option"
  zs_emotions :: "string list"
  zs_lookup :: "nat \<rightharpoonup> 'st"
  zs_emojis_dict :: 'r
  zs_convert_emojis :: bool
  zs_idiomatic_tokens :: 'r

record ('a, 'o, 'r, 'm, 'b, 'st, 'e, 'z) modules =
  load_dictionary :: "string \<Rightarrow> string option \<Rightarrow> 'r"
  load_spacy :: "spacy_request \<Rightarrow> 'm"
  load_emojis :: "string \<Rightarrow> 'r"
  load_idiomatic_tokens :: "string \<Rightarrow> string option \<Rightarrow> 'r"
  load_antonyms :: "string \<Rightarrow> 'r"
  load_stemmer :: "string \<Rightarrow> 'm"
  load_lookup_table :: "string \<Rightarrow> (nat \<rightharpoonup> 'st)"
  make_baseline :: "('a, 'r, 'm) make_baseline_args \<Rightarrow> 'b"
  truthy :: "'b \<Rightarrow> bool"
  es_get_emotions :: "('o, 'r, 'm) get_emotions_args \<Rightarrow> 'e"
  es_zscores :: "('o, 'r, 'm, 'b, 'st) zscores_args \<Rightarrow> 'z \<times> (nat \<rightharpoonup> 'st)"

text \<open>
  The attributes of an instance. \<^verbatim>\<open>emotionslist\<close> and \<^verbatim>\<open>_emotion_model\<close> are assigned
  in one branch of the constructor only: \<open>None\<close> is the attribute that does not exist.
  The cache \<^verbatim>\<open>_lookup\<close> maps a sample size to the statistics of a null sample.
\<close>

record ('r, 'm, 'b, 'st) EmoScores =
  self_language :: string
  self_emotion_lexicon :: 'r
  self_tagger :: 'm
  self_stemmer :: "'m option"
  self_stem_or_lem :: string
  self_emotionlist :: "string list option"
  self_emojis_dict :: 'r
  self_idiomatic_tokens :: 'r
  self_antonyms :: 'r
  self_baseline :: 'b
  self_lookup :: "nat \<rightharpoonup> 'st"
  self_emotionslist :: "string list option"
  self_emotion_model :: "string option"

subsection \<open>The constructor and the setters\<close>

definition plutchik :: "string list" where
  "plutchik = [''anger'', ''trust'', ''surprise'', ''disgust'', ''joy'', ''sadness'', ''fear'',
     ''anticipation'']"

definition init ::
  "('a, 'o, 'r, 'm, 'b, 'st, 'e, 'z) modules \<Rightarrow> string \<Rightarrow> string option \<Rightarrow> string
     \<Rightarrow> ('r, 'm, 'b, 'st) EmoScores" where
  "init env language spacy_model emotion_model =
     (let emotion_lexicon = load_dictionary env language None;
          self = \<lparr>self_language = language,
                  self_emotion_lexicon = emotion_lexicon,
                  self_tagger = (case spacy_model of
                                   None \<Rightarrow> load_spacy env (ByLanguage language)
                                 | Some model \<Rightarrow> load_spacy env (ByModel model)),
                  self_stemmer = None,
                  self_stem_or_lem = ''lemmatization'',
                  self_emotionlist = None,
                  self_emojis_dict = load_emojis env language,
                  self_idiomatic_tokens = load_idiomatic_tokens env language None,
                  self_antonyms = load_antonyms env language,
                  self_baseline = make_baseline env
                    \<lparr>mb_baseline = None, mb_language = Some language,
                     mb_emotion_lexicon = Some emotion_lexicon, mb_tagger = None,
                     mb_emojis_dict = None, mb_idiomatic_tokens = None\<rparr>,
                  self_lookup = load_lookup_table env language,
                  self_emotionslist = None,
                  self_emotion_model = None\<rparr>
      in if emotion_model = ''plutchik''
         then self\<lparr>self_emotionslist := Some plutchik, self_emotion_model := Some ''plutchik''\<rparr>
         else self)"

definition set_stemming_lemmatization ::
  "('a, 'o, 'r, 'm, 'b, 'st, 'e, 'z) modules \<Rightarrow> ('r, 'm, 'b, 'st) EmoScores \<Rightarrow> string
     \<Rightarrow> ('r, 'm, 'b, 'st) EmoScores" where
  "set_stemming_lemmatization env self stem_or_lem =
     (let self = self\<lparr>self_emotion_lexicon :=
                        load_dictionary env (self_language self) (Some stem_or_lem)\<rparr>;
          self = self\<lparr>self_idiomatic_tokens :=
                        load_idiomatic_tokens env (self_language self) (Some stem_or_lem)\<rparr>;
          self = self\<lparr>self_stem_or_lem := stem_or_lem\<rparr>
      in if stem_or_lem = ''stemming'' \<and> self_stemmer self = None
         then self\<lparr>self_stemmer := Some (load_stemmer env (self_language self))\<rparr>
         else self)"

definition set_baseline ::
  "('a, 'o, 'r, 'm, 'b, 'st, 'e, 'z) modules \<Rightarrow> ('r, 'm, 'b, 'st) EmoScores \<Rightarrow> 'a baseline_arg
     \<Rightarrow> ('r, 'm, 'b, 'st) EmoScores" where
  "set_baseline env self baseline =
     (let self = self\<lparr>self_baseline := make_baseline env
                   \<lparr>mb_baseline = Some baseline, mb_language = None,
                    mb_emotion_lexicon = Some (self_emotion_lexicon self),
                    mb_tagger = Some (Some (self_tagger self)),
                    mb_emojis_dict = Some (self_emojis_dict self),
                    mb_idiomatic_tokens = Some (self_idiomatic_tokens self)\<rparr>\<rparr>
      in self\<lparr>self_lookup := Map.empty\<rparr>)"

subsection \<open>emotions and zscores\<close>

text \<open>
  \<^verbatim>\<open>model = self._tagger if self._stem_or_lem == "lemmatization" else self._stemmer\<close>
\<close>

definition current_model :: "('r, 'm, 'b, 'st) EmoScores \<Rightarrow> 'm option" where
  "current_model self =
     (if self_stem_or_lem self = ''lemmatization'' then Some (self_tagger self)
      else self_stemmer self)"

text \<open>
  The arguments of the call of \<^verbatim>\<open>es._get_emotions\<close>. Reading \<^verbatim>\<open>self.emotionslist\<close>
  raises AttributeError when the attribute does not exist, before the call is made.
\<close>

definition emotions_call ::
  "('r, 'm, 'b, 'st) EmoScores \<Rightarrow> 'o \<Rightarrow> string \<Rightarrow> bool \<Rightarrow> bool \<Rightarrow> string list
     \<Rightarrow> ('o, 'r, 'm) get_emotions_args" where
  "emotions_call self obj normalization_strategy return_words convert_emojis emotionslist =
     \<lparr>ge_obj = obj, ge_normalization_strategy = normalization_strategy,
      ge_emotion_lexicon = self_emotion_lexicon self, ge_language = self_language self,
      ge_tagger = current_model self, ge_emotions = emotionslist,
      ge_return_words = return_words, ge_emojis_dict = self_emojis_dict self,
      ge_convert_emojis = convert_emojis,
      ge_idiomatic_tokens = self_idiomatic_tokens self\<rparr>"

definition emotions ::
  "('a, 'o, 'r, 'm, 'b, 'st, 'e, 'z) modules \<Rightarrow> ('r, 'm, 'b, 'st) EmoScores \<Rightarrow> 'o \<Rightarrow> string
     \<Rightarrow> bool \<Rightarrow> bool \<Rightarrow> error + 'e" where
  "emotions env self obj normalization_strategy return_words convert_emojis =
     (case self_emotionslist self of
        None \<Rightarrow> Inl AttributeError
      | Some emotionslist \<Rightarrow>
          Inr (es_get_emotions env
            (emotions_call self obj normalization_strategy return_words convert_emojis
               emotionslist)))"

text \<open>
  The first block of \<^verbatim>\<open>zscores\<close>: the baseline of the call, and the instance, whose
  stored baseline is rebuilt when the argument and the stored baseline are both false.
\<close>

definition resolve_baseline ::
  "('a, 'o, 'r, 'm, 'b, 'st, 'e, 'z) modules \<Rightarrow> ('r, 'm, 'b, 'st) EmoScores \<Rightarrow> 'a baseline_arg
     \<Rightarrow> 'b \<times> ('r, 'm, 'b, 'st) EmoScores" where
  "resolve_baseline env self baseline =
     (let model = current_model self
      in if \<not> arg_truthy baseline then
           (let self =
              (if \<not> truthy env (self_baseline self)
               then self\<lparr>self_baseline := make_baseline env
                      \<lparr>mb_baseline = Some NoneArg, mb_language = Some (self_language self),
                       mb_emotion_lexicon = Some (self_emotion_lexicon self),
                       mb_tagger = Some model, mb_emojis_dict = None,
                       mb_idiomatic_tokens = None\<rparr>\<rparr>
               else self)
            in (self_baseline self, self))
         else
           (make_baseline env
              \<lparr>mb_baseline = Some baseline, mb_language = Some (self_language self),
               mb_emotion_lexicon = Some (self_emotion_lexicon self),
               mb_tagger = Some model, mb_emojis_dict = None,
               mb_idiomatic_tokens = None\<rparr>, self))"

text \<open>
  The arguments of the call of \<^verbatim>\<open>es._zscores\<close>, with \<^verbatim>\<open>lookup=self._lookup\<close>. The cache
  is passed by reference: what the callee stores in it is in \<^verbatim>\<open>self._lookup\<close> after the
  call, so the callee returns the cache with its result. An exception leaves the
  instance as it is at that point.
\<close>

definition zscores_call ::
  "('r, 'm, 'b, 'st) EmoScores \<Rightarrow> 'o \<Rightarrow> 'b \<Rightarrow> int \<Rightarrow> bool \<Rightarrow> string list
     \<Rightarrow> ('o, 'r, 'm, 'b, 'st) zscores_args" where
  "zscores_call self obj baseline n_samples convert_emojis emotionslist =
     \<lparr>zs_obj = obj, zs_baseline = baseline, zs_n_samples = n_samples,
      zs_emotion_lexicon = self_emotion_lexicon self, zs_language = self_language self,
      zs_tagger = current_model self, zs_emotions = emotionslist,
      zs_lookup = self_lookup self, zs_emojis_dict = self_emojis_dict self,
      zs_convert_emojis = convert_emojis,
      zs_idiomatic_tokens = self_idiomatic_tokens self\<rparr>"

definition zscores ::
  "('a, 'o, 'r, 'm, 'b, 'st, 'e, 'z) modules \<Rightarrow> ('r, 'm, 'b, 'st) EmoScores \<Rightarrow> 'o
     \<Rightarrow> 'a baseline_arg \<Rightarrow> int \<Rightarrow> bool \<Rightarrow> (error + 'z) \<times> ('r, 'm, 'b, 'st) EmoScores" where
  "zscores env self obj baseline n_samples convert_emojis =
     (case resolve_baseline env self baseline of
        (baseline, self) \<Rightarrow>
          (case self_emotionslist self of
             None \<Rightarrow> (Inl AttributeError, self)
           | Some emotionslist \<Rightarrow>
               (case es_zscores env
                       (zscores_call self obj baseline n_samples convert_emojis emotionslist) of
                  (z, lookup) \<Rightarrow> (Inr z, self\<lparr>self_lookup := lookup\<rparr>))))"

subsection \<open>The significance engine\<close>

text \<open>
  Modelled from the spec: \<^verbatim>\<open>es._zscores\<close>, of the module \<^verbatim>\<open>emoatlas/emo_scores.py\<close>,
  which is not among the sources. Section 4.4: n is the word count of the observed
  input; when the cache has an entry for n, its statistics are reused; otherwise the
  baseline is resampled at n, the statistics of the sample are computed and stored in
  the cache under n; the z-scores come from the observed input and the statistics.
  The draw is random: \<open>resample\<close> stands for one outcome of it.
\<close>

record ('o, 'r, 'm, 'b, 'st, 'z) engine =
  word_count :: "'o \<Rightarrow> nat"
  resample :: "('o, 'r, 'm, 'b, 'st) zscores_args \<Rightarrow> nat \<Rightarrow> 'st"
  zscore_vector :: "('o, 'r, 'm, 'b, 'st) zscores_args \<Rightarrow> 'st \<Rightarrow> 'z"

definition spec_zscores ::
  "('o, 'r, 'm, 'b, 'st, 'z) engine \<Rightarrow> ('o, 'r, 'm, 'b, 'st) zscores_args
     \<Rightarrow> 'z \<times> (nat \<rightharpoonup> 'st)" where
  "spec_zscores eng args =
     (let n = word_count eng (zs_obj args)
      in case zs_lookup args n of
           Some stats \<Rightarrow> (zscore_vector eng args stats, zs_lookup args)
         | None \<Rightarrow>
             (let stats = resample eng args n
              in (zscore_vector eng args stats, (zs_lookup args)(n \<mapsto> stats))))"

subsection \<open>Sequences of calls\<close>

text \<open>The instance after a call of one of its methods, and after a list of calls.\<close>

datatype ('a, 'o) call =
    SetStemmingLemmatization string
  | SetBaseline "'a baseline_arg"
  | Emotions 'o string bool bool
  | ZScores 'o "'a baseline_arg" int bool

fun after_call ::
  "('a, 'o, 'r, 'm, 'b, 'st, 'e, 'z) modules \<Rightarrow> ('r, 'm, 'b, 'st) EmoScores \<Rightarrow> ('a, 'o) call
     \<Rightarrow> ('r, 'm, 'b, 'st) EmoScores" where
  "after_call env self (SetStemmingLemmatization stem_or_lem) =
     set_stemming_lemmatization env self stem_or_lem"
| "after_call env self (SetBaseline baseline) = set_baseline env self baseline"
| "after_call env self (Emotions obj normalization_strategy return_words convert_emojis) = self"
| "after_call env self (ZScores obj baseline n_samples convert_emojis) =
     snd (zscores env self obj baseline n_samples convert_emojis)"

definition after_calls ::
  "('a, 'o, 'r, 'm, 'b, 'st, 'e, 'z) modules \<Rightarrow> ('r, 'm, 'b, 'st) EmoScores
     \<Rightarrow> ('a, 'o) call list \<Rightarrow> ('r, 'm, 'b, 'st) EmoScores" where
  "after_calls env self calls = foldl (after_call env) self calls"


subsection \<open>A small instance\<close>

text \<open>
  Collaborators to run the model on: a baseline is the text it was made from, the
  statistics of a null sample are the baseline and the lexicon it was drawn with and
  its size, and the z-scores are the statistics they were computed from, so that a
  result shows where its statistics come from.
\<close>

definition demo_engine ::
  "(string list, string, string, string, string \<times> string \<times> nat, string \<times> string \<times> nat) engine" where
  "demo_engine =
     \<lparr>word_count = length,
      resample = (\<lambda>args n. (zs_baseline args, zs_emotion_lexicon args, n)),
      zscore_vector = (\<lambda>args stats. stats)\<rparr>"

definition demo_modules ::
  "(unit, string list, string, string, string, string \<times> string \<times> nat, unit,
    string \<times> string \<times> nat) modules" where
  "demo_modules =
     \<lparr>load_dictionary = (\<lambda>language stem_or_lem.
        case stem_or_lem of None \<Rightarrow> ''lemma lexicon'' | Some mode \<Rightarrow> mode @ '' lexicon''),
      load_spacy = (\<lambda>request. ''tagger''),
      load_emojis = (\<lambda>language. ''emojis''),
      load_idiomatic_tokens = (\<lambda>language stem_or_lem. ''idioms''),
      load_antonyms = (\<lambda>language. ''antonyms''),
      load_stemmer = (\<lambda>language. ''stemmer''),
      load_lookup_table = (\<lambda>language. Map.empty),
      make_baseline = (\<lambda>args.
        case mb_baseline args of Some (TextArg text) \<Rightarrow> text | _ \<Rightarrow> ''lexicon baseline''),
      truthy = (\<lambda>baseline. baseline \<noteq> []),
      es_get_emotions = (\<lambda>args. ()),
      es_zscores = spec_zscores demo_engine\<rparr>"

section \<open>Properties of the target-word restriction\<close>

lemma set_chain: "set (chain es) = endpoints (set es)"
  by (auto simp: chain_def endpoints_def)

lemma set_chain_incident:
  "set (chain (filter (word_in_edge t) es)) = endpoints (incident_edges t es)"
  by (auto simp: set_chain incident_edges_def word_in_edge_def endpoints_def)

lemma endpoints_Un: "endpoints (A \<union> B) = endpoints A \<union> endpoints B"
  by (auto simp: endpoints_def)

lemma collect_vertices_eq:
  "collect_vertices t d V = V \<union> endpoints (all_kinds_incident t d)"
proof (induction d arbitrary: V)
  case Nil
  show ?case by (simp add: all_kinds_incident_def endpoints_def)
next
  case (Cons p d)
  obtain k es where p: "p = (k, es)" by (cases p)
  have "all_kinds_incident t (p # d) = incident_edges t es \<union> all_kinds_incident t d"
    by (simp add: all_kinds_incident_def p)
  then show ?case
    by (simp add: p Cons.IH set_chain_incident endpoints_Un Un_assoc)
qed

lemma collect_edges_eq:
  "collect_edges V d acc = acc @ map (\<lambda>(k, es). (k, filter (both_in V) es)) d"
  by (induction d arbitrary: acc) auto

lemma both_in_within: "filter (both_in V) es = edges_within V es"
  unfolding edges_within_def by (rule filter_cong) (simp_all add: both_in_def)

lemma extract_flat:
  "edges fmn = Flat es \<Longrightarrow>
   extract_word_from_formamentis fmn t =
     \<lparr>edges = Flat (edges_within (endpoints (incident_edges t es)) es),
      vertices = endpoints (incident_edges t es)\<rparr>"
  by (simp add: extract_word_from_formamentis_def Let_def set_chain_incident both_in_within)

lemma extract_multiplex:
  "edges fmn = Multiplex d \<Longrightarrow>
   extract_word_from_formamentis fmn t =
     \<lparr>edges = Multiplex
        (map (\<lambda>(k, es). (k, edges_within (endpoints (all_kinds_incident t d)) es)) d),
      vertices = endpoints (all_kinds_incident t d)\<rparr>"
  by (simp add: extract_word_from_formamentis_def Let_def collect_vertices_eq
      collect_edges_eq both_in_within)

lemma incident_endpoints:
  "e \<in> incident_edges t es \<Longrightarrow> incident_edges t es \<subseteq> E \<Longrightarrow>
   fst e \<in> endpoints E \<and> snd e \<in> endpoints E"
  by (auto simp: endpoints_def)

lemma incident_within:
  assumes "incident_edges t es \<subseteq> E"
  shows "incident_edges t (edges_within (endpoints E) es) = incident_edges t es"
proof
  show "incident_edges t (edges_within (endpoints E) es) \<subseteq> incident_edges t es"
    by (auto simp: incident_edges_def edges_within_def)
next
  show "incident_edges t es \<subseteq> incident_edges t (edges_within (endpoints E) es)"
  proof
    fix e assume e: "e \<in> incident_edges t es"
    then have "fst e \<in> endpoints E \<and> snd e \<in> endpoints E"
      using assms by (rule incident_endpoints)
    with e show "e \<in> incident_edges t (edges_within (endpoints E) es)"
      by (simp add: incident_edges_def edges_within_def)
  qed
qed

lemma edges_within_idem: "edges_within V (edges_within V es) = edges_within V es"
  by (simp add: edges_within_def)

lemma kind_incident_subset:
  "(k, es) \<in> set d \<Longrightarrow> incident_edges t es \<subseteq> all_kinds_incident t d"
  by (force simp: all_kinds_incident_def)

lemma all_kinds_incident_within:
  "all_kinds_incident t
     (map (\<lambda>(k, es). (k, edges_within (endpoints (all_kinds_incident t d)) es)) d) =
   all_kinds_incident t d"
proof -
  let ?V = "endpoints (all_kinds_incident t d)"
  have "incident_edges t (edges_within ?V es) = incident_edges t es"
    if "(k, es) \<in> set d" for k es
    using kind_incident_subset [OF that] by (rule incident_within)
  then have "\<And>p. p \<in> set d \<Longrightarrow>
      incident_edges t (edges_within ?V (snd p)) = incident_edges t (snd p)"
    by (metis prod.collapse)
  then show ?thesis
    by (auto simp: all_kinds_incident_def image_image case_prod_unfold)
qed

lemma restricted_kinds_idem:
  "map (\<lambda>(k, es). (k, edges_within V es)) (map (\<lambda>(k, es). (k, edges_within V es)) d) =
   map (\<lambda>(k, es). (k, edges_within V es)) d"
  by (simp add: case_prod_unfold edges_within_idem)

lemma all_edges_no_incident:
  assumes "\<forall>e \<in> set (all_edges (Multiplex d)). \<not> word_in_edge t e"
  shows "all_kinds_incident t d = {}"
  using assms by (fastforce simp: all_kinds_incident_def incident_edges_def word_in_edge_def)

lemma flat_no_incident:
  assumes "\<forall>e \<in> set es. \<not> word_in_edge t e"
  shows "incident_edges t es = {}"
  using assms by (auto simp: incident_edges_def word_in_edge_def)

lemma edges_within_empty: "edges_within {} es = []"
  by (simp add: edges_within_def)

lemma endpoints_empty: "endpoints {} = {}"
  by (simp add: endpoints_def)

text \<open>
  C3. The restriction to a target word takes the edges incident to the target, then the
  union of their endpoints as the new vertex set, then exactly the original edges with
  both endpoints in that set, in their original order. For a multiplex network the
  vertex set is the union over all kinds, the filter is applied to each kind, and the
  kinds stay as keys, in their order.
\<close>

theorem extract_word_depth_one:
  "extract_word_from_formamentis \<lparr>edges = Flat es, vertices = vs\<rparr> t =
     \<lparr>edges = Flat (edges_within (endpoints (incident_edges t es)) es),
      vertices = endpoints (incident_edges t es)\<rparr>
   \<and> extract_word_from_formamentis \<lparr>edges = Multiplex d, vertices = vs\<rparr> t =
     \<lparr>edges = Multiplex
        (map (\<lambda>(k, es). (k, edges_within (endpoints (all_kinds_incident t d)) es)) d),
      vertices = endpoints (all_kinds_incident t d)\<rparr>"
  by (simp add: extract_flat extract_multiplex)

text \<open>
  The closure stops at depth one: with the edges (t, a) and (a, b), the word b is two
  steps from t, and the edge (a, b) is dropped although a is kept.
\<close>

lemma extract_word_not_transitive:
  "extract_word_from_formamentis
     \<lparr>edges = Flat [(''t'', ''a''), (''a'', ''b'')], vertices = [''t'', ''a'', ''b'']\<rparr> ''t'' =
   \<lparr>edges = Flat [(''t'', ''a'')], vertices = {''t'', ''a''}\<rparr>"
  by (simp add: extract_word_from_formamentis_def Let_def chain_def word_in_edge_def
      both_in_def)

text \<open>
  C4. The restriction is idempotent: restricting the result once more to the same
  target word gives the same edge collection and the same vertex set, for a flat and
  for a multiplex network.
\<close>

theorem extract_word_idempotent:
  "edges (extract_word_from_formamentis (extract_word_from_formamentis fmn t) t) =
     edges (extract_word_from_formamentis fmn t)
   \<and> vertices (extract_word_from_formamentis (extract_word_from_formamentis fmn t) t) =
     vertices (extract_word_from_formamentis fmn t)"
proof (cases "edges fmn")
  case (Flat es)
  let ?V = "endpoints (incident_edges t es)"
  let ?r = "extract_word_from_formamentis fmn t"
  have r: "?r = \<lparr>edges = Flat (edges_within ?V es), vertices = ?V\<rparr>"
    using Flat by (rule extract_flat)
  have inc: "incident_edges t (edges_within ?V es) = incident_edges t es"
    by (rule incident_within) simp
  have "edges ?r = Flat (edges_within ?V es)"
    by (simp add: r)
  then have "extract_word_from_formamentis ?r t =
      \<lparr>edges = Flat (edges_within (endpoints (incident_edges t (edges_within ?V es)))
                        (edges_within ?V es)),
       vertices = endpoints (incident_edges t (edges_within ?V es))\<rparr>"
    by (rule extract_flat)
  then have again: "extract_word_from_formamentis ?r t =
      \<lparr>edges = Flat (edges_within ?V es), vertices = ?V\<rparr>"
    by (simp only: inc edges_within_idem)
  show ?thesis
    by (simp only: again) (simp add: r)
next
  case (Multiplex d)
  let ?V = "endpoints (all_kinds_incident t d)"
  let ?d = "map (\<lambda>(k, es). (k, edges_within ?V es)) d"
  let ?r = "extract_word_from_formamentis fmn t"
  have r: "?r = \<lparr>edges = Multiplex ?d, vertices = ?V\<rparr>"
    using Multiplex by (rule extract_multiplex)
  have inc: "all_kinds_incident t ?d = all_kinds_incident t d"
    by (rule all_kinds_incident_within)
  have "edges ?r = Multiplex ?d"
    by (simp add: r)
  then have "extract_word_from_formamentis ?r t =
      \<lparr>edges = Multiplex
         (map (\<lambda>(k, es). (k, edges_within (endpoints (all_kinds_incident t ?d)) es)) ?d),
       vertices = endpoints (all_kinds_incident t ?d)\<rparr>"
    by (rule extract_multiplex)
  then have again: "extract_word_from_formamentis ?r t =
      \<lparr>edges = Multiplex ?d, vertices = ?V\<rparr>"
    by (simp only: inc restricted_kinds_idem)
  show ?thesis
    by (simp only: again) (simp add: r)
qed

text \<open>
  C9. When the target word occurs in no edge, the restriction does not fail: it returns
  no vertex and, for a flat network, no edge; for a multiplex network, every kind of
  the input as a key, in order, each with an empty edge list.
\<close>

theorem extract_word_absent_target:
  assumes "\<forall>e \<in> set (all_edges (edges fmn)). \<not> word_in_edge t e"
  shows "extract_word_from_formamentis fmn t =
     \<lparr>edges = (case edges fmn of
                 Flat es \<Rightarrow> Flat []
               | Multiplex d \<Rightarrow> Multiplex (map (\<lambda>(k, es). (k, [])) d)),
      vertices = {}\<rparr>"
proof (cases "edges fmn")
  case (Flat es)
  with assms have "incident_edges t es = {}"
    by (simp add: flat_no_incident)
  with Flat show ?thesis
    by (simp add: extract_flat endpoints_empty edges_within_empty)
next
  case (Multiplex d)
  with assms have "all_kinds_incident t d = {}"
    by (simp add: all_edges_no_incident)
  with Multiplex show ?thesis
    by (simp add: extract_multiplex endpoints_empty edges_within_empty)
qed

theorem extract_word_absent_target_witness:
  "extract_word_from_formamentis
     \<lparr>edges = Flat [(''a'', ''b''), (''b'', ''c'')], vertices = [''a'', ''b'', ''c'']\<rparr> ''z'' =
     \<lparr>edges = Flat [], vertices = {}\<rparr>
   \<and> extract_word_from_formamentis
     \<lparr>edges = Multiplex [(''syntactic'', [(''a'', ''b'')]), (''synonyms'', [])],
      vertices = [''a'', ''b'']\<rparr> ''z'' =
     \<lparr>edges = Multiplex [(''syntactic'', []), (''synonyms'', [])], vertices = {}\<rparr>"
  using extract_word_absent_target
    [of "\<lparr>edges = Flat [(''a'', ''b''), (''b'', ''c'')], vertices = [''a'', ''b'', ''c'']\<rparr>"
      "''z''"]
    extract_word_absent_target
    [of "\<lparr>edges = Multiplex [(''syntactic'', [(''a'', ''b'')]), (''synonyms'', [])],
          vertices = [''a'', ''b'']\<rparr>" "''z''"]
  by (simp add: word_in_edge_def)

section \<open>Properties of the edge-list files\<close>


lemma split_no_sep: "sep \<notin> set s \<Longrightarrow> split sep s = [s]"
  by (induction s) auto

lemma split_at_sep: "sep \<notin> set p \<Longrightarrow> split sep (p @ sep # q) = p # split sep q"
  by (induction p) auto




lemma split_one_comma:
  "count_list l sep = 1 \<Longrightarrow>
   split sep l = [takeWhile (\<lambda>c. c \<noteq> sep) l, tl (dropWhile (\<lambda>c. c \<noteq> sep) l)]"
proof (induction l)
  case Nil
  then show ?case by simp
next
  case (Cons c cs)
  show ?case
  proof (cases "c = sep")
    case True
    with Cons.prems have "count_list cs sep = 0" by simp
    then have "sep \<notin> set cs" by (simp add: count_list_0_iff)
    with True show ?thesis by (simp add: split_no_sep)
  next
    case False
    with Cons show ?thesis by simp
  qed
qed

lemma import_lines_ok:
  "\<forall>l \<in> set ls. one_comma l \<Longrightarrow>
   import_lines ls E V =
     Inr (E @ map edge_of_line ls, V \<union> endpoints (set (map edge_of_line ls)))"
proof (induction ls arbitrary: E V)
  case Nil
  then show ?case by (simp add: endpoints_def)
next
  case (Cons l ls)
  then have "count_list l comma = 1" by (simp add: one_comma_def)
  then have "map strip (split comma l) = [fst (edge_of_line l), snd (edge_of_line l)]"
    by (simp add: split_one_comma edge_of_line_def)
  moreover have "\<forall>l \<in> set ls. one_comma l" using Cons.prems by simp
  ultimately show ?case
    using Cons.IH by (auto simp: endpoints_def)
qed













lemma sorted_vertices:
  "sorted (sorted_list_of_set (endpoints (set es)))
   \<and> distinct (sorted_list_of_set (endpoints (set es)))
   \<and> set (sorted_list_of_set (endpoints (set es))) = endpoints (set es)"
  by (simp add: endpoints_def)

text \<open>
  C6. When the file exists and each of its lines holds exactly one comma,
  \<^verbatim>\<open>import_formamentis\<close> returns a flat network: its edges are the edges of the lines, in
  the order of the file, each endpoint without its surrounding whitespace; its vertices
  are the endpoints of these edges, as a sorted list without duplicates.
\<close>

theorem import_formamentis_file_order:
  assumes "fs p = Some content"
      and "\<forall>l \<in> set (file_lines (universal_newlines content)). one_comma l"
  shows "import_formamentis fs (Some p) =
       Inr \<lparr>edges = Flat (file_edges content),
            vertices = sorted_list_of_set (endpoints (set (file_edges content)))\<rparr>
     \<and> sorted (sorted_list_of_set (endpoints (set (file_edges content))))
     \<and> distinct (sorted_list_of_set (endpoints (set (file_edges content))))
     \<and> set (sorted_list_of_set (endpoints (set (file_edges content)))) =
         endpoints (set (file_edges content))"
proof -
  have "import_formamentis fs (Some p) =
      Inr \<lparr>edges = Flat (file_edges content),
           vertices = sorted_list_of_set (endpoints (set (file_edges content)))\<rparr>"
    using import_lines_ok [OF assms(2), of "[]" "{}"] assms(1)
    by (simp add: import_formamentis_def file_edges_def)
  then show ?thesis
    using sorted_vertices [of "file_edges content"] by (intro conjI) simp_all
qed

theorem import_formamentis_file_order_witness:
  "import_formamentis [''net.txt'' \<mapsto> ''b , a\<newline>  c,a a''] (Some ''net.txt'') =
     Inr \<lparr>edges = Flat [(''b'', ''a''), (''c'', ''a a'')],
          vertices = [''a'', ''a a'', ''b'', ''c'']\<rparr>"
proof -
  have ls: "file_lines (universal_newlines ''b , a\<newline>  c,a a'') = [''b , a\<newline>'', ''  c,a a'']"
    by (simp add: CR_def LF_def)
  have "map edge_of_line [''b , a\<newline>'', ''  c,a a''] = [(''b'', ''a''), (''c'', ''a a'')]"
    by (simp add: edge_of_line_def strip_def isspace_def whitespace_def comma_def)
  then have es: "file_edges ''b , a\<newline>  c,a a'' = [(''b'', ''a''), (''c'', ''a a'')]"
    by (simp only: file_edges_def ls)
  have "endpoints (set [(''b'', ''a''), (''c'', ''a a'')]) = {''b'', ''c'', ''a'', ''a a''}"
    by (auto simp: endpoints_def)
  moreover have "sorted_list_of_set {''b'', ''c'', ''a'', ''a a''} = [''a'', ''a a'', ''b'', ''c'']"
    by code_simp
  ultimately have vs: "sorted_list_of_set (endpoints (set [(''b'', ''a''), (''c'', ''a a'')])) =
      [''a'', ''a a'', ''b'', ''c'']"
    by (simp only:)
  have f: "[''net.txt'' \<mapsto> ''b , a\<newline>  c,a a''] ''net.txt'' = Some ''b , a\<newline>  c,a a''"
    by simp
  have wf: "\<forall>l \<in> set (file_lines (universal_newlines ''b , a\<newline>  c,a a'')). one_comma l"
    unfolding ls by (simp add: one_comma_def comma_def)
  have "import_formamentis [''net.txt'' \<mapsto> ''b , a\<newline>  c,a a''] (Some ''net.txt'') =
       Inr \<lparr>edges = Flat (file_edges ''b , a\<newline>  c,a a''),
            vertices = sorted_list_of_set (endpoints (set (file_edges ''b , a\<newline>  c,a a'')))\<rparr>"
    using import_formamentis_file_order
      [of "[''net.txt'' \<mapsto> ''b , a\<newline>  c,a a'']" "''net.txt''" "''b , a\<newline>  c,a a''",
       OF f wf]
    by (rule conjunct1)
  then show ?thesis
    by (simp only: es vs)
qed

text \<open>
  When the file cannot be opened for writing, \<^verbatim>\<open>export_formamentis\<close> raises what
  \<^verbatim>\<open>open\<close> raises and leaves the file system as it is.
\<close>

lemma export_open_raises:
  "open_w (export_filepath cwd filename path) = Some e \<Longrightarrow>
   export_formamentis cwd open_w fs fmnt filename path = (Some e, fs)"
  by (simp add: export_formamentis_def Let_def)




text \<open>
  Where the directory does not exist, the export raises FileNotFoundError and writes no
  file.
\<close>

lemma export_missing_directory:
  "export_formamentis ''/home'' home_only Map.empty
     \<lparr>edges = Flat [(''b'', ''a'')], vertices = [''a'', ''b'']\<rparr> (Some ''net'') (Some ''/nowhere'') =
   (Some FileNotFoundError, Map.empty)"
  by (simp add: export_formamentis_def export_filepath_def endswith_def os_path_join_def
      home_only_def)

section \<open>Properties of the scorer\<close>

lemma emotionslist_set_stemming [simp]:
  "self_emotionslist (set_stemming_lemmatization env self m) = self_emotionslist self"
  by (simp add: set_stemming_lemmatization_def Let_def)

lemma emotionslist_set_baseline [simp]:
  "self_emotionslist (set_baseline env self b) = self_emotionslist self"
  by (simp add: set_baseline_def Let_def)

lemma emotionslist_resolve [simp]:
  "self_emotionslist (snd (resolve_baseline env self b)) = self_emotionslist self"
  by (simp add: resolve_baseline_def Let_def)

lemma emotionslist_zscores [simp]:
  "self_emotionslist (snd (zscores env self obj b k ce)) = self_emotionslist self"
proof -
  obtain bl s1 where r: "resolve_baseline env self b = (bl, s1)"
    by (cases "resolve_baseline env self b")
  then have "self_emotionslist s1 = self_emotionslist self"
    using emotionslist_resolve [of env self b] by simp
  then show ?thesis
    by (simp add: zscores_def r split: option.split prod.split)
qed

lemma emotionslist_after_call [simp]:
  "self_emotionslist (after_call env self c) = self_emotionslist self"
  by (cases c) simp_all

lemma emotionslist_after_calls:
  "self_emotionslist (after_calls env self cs) = self_emotionslist self"
  unfolding after_calls_def by (induction cs arbitrary: self) simp_all

lemma emotionslist_init:
  "self_emotionslist (init env language spacy_model emotion_model) =
     (if emotion_model = ''plutchik'' then Some plutchik else None)"
  by (simp add: init_def Let_def)

lemma zscores_with_list:
  assumes "self_emotionslist self = Some el"
  shows "fst (zscores env self obj b k ce) =
     Inr (fst (es_zscores env
       (zscores_call (snd (resolve_baseline env self b)) obj
          (fst (resolve_baseline env self b)) k ce el)))"
proof -
  obtain bl s1 where r: "resolve_baseline env self b = (bl, s1)"
    by (cases "resolve_baseline env self b")
  then have "self_emotionslist s1 = Some el"
    using emotionslist_resolve [of env self b] assms by simp
  then show ?thesis
    by (simp add: zscores_def r split: prod.split)
qed

lemma zscores_without_list:
  assumes "self_emotionslist self = None"
  shows "fst (zscores env self obj b k ce) = Inl AttributeError"
proof -
  obtain bl s1 where r: "resolve_baseline env self b = (bl, s1)"
    by (cases "resolve_baseline env self b")
  then have "self_emotionslist s1 = None"
    using emotionslist_resolve [of env self b] assms by simp
  then show ?thesis
    by (simp add: zscores_def r)
qed

text \<open>
  C7. An instance constructed with the emotion model \<open>plutchik\<close>, after any calls of its
  methods, holds the list anger, trust, surprise, disgust, joy, sadness, fear,
  anticipation. \<^verbatim>\<open>emotions\<close> returns what \<^verbatim>\<open>es._get_emotions\<close> returns on arguments whose
  \<^verbatim>\<open>emotions\<close> is exactly this list, in this order, and \<^verbatim>\<open>zscores\<close> what \<^verbatim>\<open>es._zscores\<close>
  returns on arguments whose \<^verbatim>\<open>emotions\<close> is this list, for every collaborator.
\<close>

theorem plutchik_emotion_list:
  "(let self = after_calls env (init env language spacy_model ''plutchik'') calls;
        called = snd (resolve_baseline env self baseline)
    in self_emotionslist self =
         Some [''anger'', ''trust'', ''surprise'', ''disgust'', ''joy'', ''sadness'', ''fear'',
               ''anticipation'']
     \<and> emotions env self obj normalization_strategy return_words convert_emojis =
         Inr (es_get_emotions env
           \<lparr>ge_obj = obj, ge_normalization_strategy = normalization_strategy,
            ge_emotion_lexicon = self_emotion_lexicon self,
            ge_language = self_language self,
            ge_tagger = current_model self,
            ge_emotions =
              [''anger'', ''trust'', ''surprise'', ''disgust'', ''joy'', ''sadness'', ''fear'',
               ''anticipation''],
            ge_return_words = return_words,
            ge_emojis_dict = self_emojis_dict self,
            ge_convert_emojis = convert_emojis,
            ge_idiomatic_tokens = self_idiomatic_tokens self\<rparr>)
     \<and> fst (zscores env self obj baseline n_samples convert_emojis) =
         Inr (fst (es_zscores env
           \<lparr>zs_obj = obj, zs_baseline = fst (resolve_baseline env self baseline),
            zs_n_samples = n_samples,
            zs_emotion_lexicon = self_emotion_lexicon called,
            zs_language = self_language called,
            zs_tagger = current_model called,
            zs_emotions =
              [''anger'', ''trust'', ''surprise'', ''disgust'', ''joy'', ''sadness'', ''fear'',
               ''anticipation''],
            zs_lookup = self_lookup called,
            zs_emojis_dict = self_emojis_dict called,
            zs_convert_emojis = convert_emojis,
            zs_idiomatic_tokens = self_idiomatic_tokens called\<rparr>)))"
proof -
  let ?self = "after_calls env (init env language spacy_model ''plutchik'') calls"
  have el: "self_emotionslist ?self = Some plutchik"
    by (simp add: emotionslist_after_calls emotionslist_init)
  have 1: "emotions env ?self obj normalization_strategy return_words convert_emojis =
      Inr (es_get_emotions env
        (emotions_call ?self obj normalization_strategy return_words convert_emojis plutchik))"
    by (simp add: emotions_def el)
  have 2: "fst (zscores env ?self obj baseline n_samples convert_emojis) =
      Inr (fst (es_zscores env
        (zscores_call (snd (resolve_baseline env ?self baseline)) obj
           (fst (resolve_baseline env ?self baseline)) n_samples convert_emojis plutchik)))"
    using el by (rule zscores_with_list)
  show ?thesis
    unfolding Let_def
    using el 1 2 unfolding plutchik_def emotions_call_def zscores_call_def
    by (intro conjI)
qed

text \<open>
  C8. With any other emotion model the constructor returns an instance all the same,
  the one of \<open>plutchik\<close> without the attributes \<^verbatim>\<open>emotionslist\<close> and \<^verbatim>\<open>_emotion_model\<close>;
  no method assigns \<^verbatim>\<open>emotionslist\<close>, and every later call of \<^verbatim>\<open>emotions\<close> or \<^verbatim>\<open>zscores\<close>
  raises AttributeError.
\<close>

theorem other_emotion_model_attribute_error:
  assumes "emotion_model \<noteq> ''plutchik''"
  shows "init env language spacy_model emotion_model =
       (init env language spacy_model ''plutchik'')
         \<lparr>self_emotionslist := None, self_emotion_model := None\<rparr>
   \<and> self_emotionslist (after_calls env (init env language spacy_model emotion_model) calls)
       = None
   \<and> emotions env (after_calls env (init env language spacy_model emotion_model) calls)
       obj normalization_strategy return_words convert_emojis = Inl AttributeError
   \<and> fst (zscores env (after_calls env (init env language spacy_model emotion_model) calls)
       obj baseline n_samples convert_emojis) = Inl AttributeError"
proof -
  let ?self = "after_calls env (init env language spacy_model emotion_model) calls"
  have el: "self_emotionslist ?self = None"
    using assms by (simp add: emotionslist_after_calls emotionslist_init)
  have "init env language spacy_model emotion_model =
       (init env language spacy_model ''plutchik'')
         \<lparr>self_emotionslist := None, self_emotion_model := None\<rparr>"
    using assms by (simp add: init_def Let_def)
  moreover note el
  moreover have "emotions env ?self obj normalization_strategy return_words convert_emojis =
      Inl AttributeError"
    by (simp add: emotions_def el)
  moreover have "fst (zscores env ?self obj baseline n_samples convert_emojis) =
      Inl AttributeError"
    using el by (rule zscores_without_list)
  ultimately show ?thesis by (intro conjI)
qed

theorem other_emotion_model_attribute_error_witness:
  "self_emotionslist (init demo_modules ''english'' None ''ekman'') = None
   \<and> self_emotion_model (init demo_modules ''english'' None ''ekman'') = None
   \<and> emotions demo_modules (init demo_modules ''english'' None ''ekman'')
       [''happy''] ''none'' False True = Inl AttributeError
   \<and> fst (zscores demo_modules (init demo_modules ''english'' None ''ekman'')
       [''happy''] NoneArg 300 True) = Inl AttributeError"
proof -
  have ne: "''ekman'' \<noteq> ''plutchik''"
    by simp
  note t = other_emotion_model_attribute_error
    [OF ne, of demo_modules "''english''" None "[]" "[''happy'']" "''none''" False True
       NoneArg 300]
  have "self_emotion_model (init demo_modules ''english'' None ''ekman'') = None"
    using t [THEN conjunct1] by simp
  moreover have "self_emotionslist (init demo_modules ''english'' None ''ekman'') = None
     \<and> emotions demo_modules (init demo_modules ''english'' None ''ekman'')
         [''happy''] ''none'' False True = Inl AttributeError
     \<and> fst (zscores demo_modules (init demo_modules ''english'' None ''ekman'')
         [''happy''] NoneArg 300 True) = Inl AttributeError"
    using t [THEN conjunct2] by (simp add: after_calls_def)
  ultimately show ?thesis
    by simp
qed

lemma resolve_falsy:
  "\<not> arg_truthy b \<Longrightarrow> resolve_baseline env self b = resolve_baseline env self NoneArg"
  by (simp add: resolve_baseline_def)

text \<open>
  C10. On an instance that has its emotion list, \<^verbatim>\<open>zscores\<close> with a false baseline
  argument (\<^verbatim>\<open>None\<close>, the empty text, the empty list) does what it does with \<^verbatim>\<open>None\<close>, and
  raises nothing: it returns what \<^verbatim>\<open>es._zscores\<close> returns for the stored baseline of the
  instance, which is first rebuilt by \<^verbatim>\<open>_make_baseline\<close> from \<^verbatim>\<open>None\<close>, and stored, when it
  is false itself. With a true argument it returns what \<^verbatim>\<open>es._zscores\<close> returns for the
  baseline that \<^verbatim>\<open>_make_baseline\<close> makes of the argument, and the stored baseline stays.
\<close>

theorem zscores_falsy_baseline:
  assumes "self_emotionslist self = Some emotionslist"
  shows "(\<not> arg_truthy baseline \<longrightarrow>
      zscores env self obj baseline n_samples convert_emojis =
        zscores env self obj NoneArg n_samples convert_emojis)
   \<and> (\<not> arg_truthy baseline \<and> truthy env (self_baseline self) \<longrightarrow>
      zscores env self obj baseline n_samples convert_emojis =
        (case es_zscores env
                \<lparr>zs_obj = obj, zs_baseline = self_baseline self, zs_n_samples = n_samples,
                 zs_emotion_lexicon = self_emotion_lexicon self,
                 zs_language = self_language self, zs_tagger = current_model self,
                 zs_emotions = emotionslist, zs_lookup = self_lookup self,
                 zs_emojis_dict = self_emojis_dict self,
                 zs_convert_emojis = convert_emojis,
                 zs_idiomatic_tokens = self_idiomatic_tokens self\<rparr> of
           (z, lookup) \<Rightarrow> (Inr z, self\<lparr>self_lookup := lookup\<rparr>)))
   \<and> (\<not> arg_truthy baseline \<and> \<not> truthy env (self_baseline self) \<longrightarrow>
      zscores env self obj baseline n_samples convert_emojis =
        (let rebuilt = make_baseline env
               \<lparr>mb_baseline = Some NoneArg, mb_language = Some (self_language self),
                mb_emotion_lexicon = Some (self_emotion_lexicon self),
                mb_tagger = Some (current_model self), mb_emojis_dict = None,
                mb_idiomatic_tokens = None\<rparr>
         in case es_zscores env
                \<lparr>zs_obj = obj, zs_baseline = rebuilt, zs_n_samples = n_samples,
                 zs_emotion_lexicon = self_emotion_lexicon self,
                 zs_language = self_language self, zs_tagger = current_model self,
                 zs_emotions = emotionslist, zs_lookup = self_lookup self,
                 zs_emojis_dict = self_emojis_dict self,
                 zs_convert_emojis = convert_emojis,
                 zs_idiomatic_tokens = self_idiomatic_tokens self\<rparr> of
              (z, lookup) \<Rightarrow>
                (Inr z, self\<lparr>self_baseline := rebuilt, self_lookup := lookup\<rparr>)))
   \<and> (arg_truthy baseline \<longrightarrow>
      zscores env self obj baseline n_samples convert_emojis =
        (case es_zscores env
                \<lparr>zs_obj = obj,
                 zs_baseline = make_baseline env
                   \<lparr>mb_baseline = Some baseline, mb_language = Some (self_language self),
                    mb_emotion_lexicon = Some (self_emotion_lexicon self),
                    mb_tagger = Some (current_model self), mb_emojis_dict = None,
                    mb_idiomatic_tokens = None\<rparr>,
                 zs_n_samples = n_samples,
                 zs_emotion_lexicon = self_emotion_lexicon self,
                 zs_language = self_language self, zs_tagger = current_model self,
                 zs_emotions = emotionslist, zs_lookup = self_lookup self,
                 zs_emojis_dict = self_emojis_dict self,
                 zs_convert_emojis = convert_emojis,
                 zs_idiomatic_tokens = self_idiomatic_tokens self\<rparr> of
           (z, lookup) \<Rightarrow> (Inr z, self\<lparr>self_lookup := lookup\<rparr>)))
   \<and> \<not> arg_truthy (NoneArg :: 'a baseline_arg)
   \<and> \<not> arg_truthy (TextArg [] :: 'a baseline_arg)
   \<and> \<not> arg_truthy (ListArg [] :: 'a baseline_arg)"
proof -
  have same: "zscores env self obj baseline n_samples convert_emojis =
      zscores env self obj NoneArg n_samples convert_emojis" if "\<not> arg_truthy baseline"
    using resolve_falsy [OF that, of env self] by (simp add: zscores_def)
  have stored: "resolve_baseline env self baseline = (self_baseline self, self)"
    if "\<not> arg_truthy baseline" "truthy env (self_baseline self)"
    using that by (simp add: resolve_baseline_def Let_def)
  have rebuilt: "resolve_baseline env self baseline =
      (make_baseline env
         \<lparr>mb_baseline = Some NoneArg, mb_language = Some (self_language self),
          mb_emotion_lexicon = Some (self_emotion_lexicon self),
          mb_tagger = Some (current_model self), mb_emojis_dict = None,
          mb_idiomatic_tokens = None\<rparr>,
       self\<lparr>self_baseline := make_baseline env
         \<lparr>mb_baseline = Some NoneArg, mb_language = Some (self_language self),
          mb_emotion_lexicon = Some (self_emotion_lexicon self),
          mb_tagger = Some (current_model self), mb_emojis_dict = None,
          mb_idiomatic_tokens = None\<rparr>\<rparr>)"
    if "\<not> arg_truthy baseline" "\<not> truthy env (self_baseline self)"
    using that by (simp add: resolve_baseline_def Let_def)
  have per_call: "resolve_baseline env self baseline =
      (make_baseline env
         \<lparr>mb_baseline = Some baseline, mb_language = Some (self_language self),
          mb_emotion_lexicon = Some (self_emotion_lexicon self),
          mb_tagger = Some (current_model self), mb_emojis_dict = None,
          mb_idiomatic_tokens = None\<rparr>, self)" if "arg_truthy baseline"
    using that by (simp add: resolve_baseline_def Let_def)
  have cm: "current_model (self\<lparr>self_baseline := b\<rparr>) = current_model self" for b
    by (simp add: current_model_def)
  show ?thesis
  proof (intro conjI impI)
    assume "\<not> arg_truthy baseline"
    then show "zscores env self obj baseline n_samples convert_emojis =
        zscores env self obj NoneArg n_samples convert_emojis"
      by (rule same)
  next
    assume "\<not> arg_truthy baseline \<and> truthy env (self_baseline self)"
    then show "zscores env self obj baseline n_samples convert_emojis =
        (case es_zscores env
                \<lparr>zs_obj = obj, zs_baseline = self_baseline self, zs_n_samples = n_samples,
                 zs_emotion_lexicon = self_emotion_lexicon self,
                 zs_language = self_language self, zs_tagger = current_model self,
                 zs_emotions = emotionslist, zs_lookup = self_lookup self,
                 zs_emojis_dict = self_emojis_dict self,
                 zs_convert_emojis = convert_emojis,
                 zs_idiomatic_tokens = self_idiomatic_tokens self\<rparr> of
           (z, lookup) \<Rightarrow> (Inr z, self\<lparr>self_lookup := lookup\<rparr>))"
      using assms by (simp add: zscores_def stored zscores_call_def)
  next
    assume "\<not> arg_truthy baseline \<and> \<not> truthy env (self_baseline self)"
    then show "zscores env self obj baseline n_samples convert_emojis =
        (let rebuilt = make_baseline env
               \<lparr>mb_baseline = Some NoneArg, mb_language = Some (self_language self),
                mb_emotion_lexicon = Some (self_emotion_lexicon self),
                mb_tagger = Some (current_model self), mb_emojis_dict = None,
                mb_idiomatic_tokens = None\<rparr>
         in case es_zscores env
                \<lparr>zs_obj = obj, zs_baseline = rebuilt, zs_n_samples = n_samples,
                 zs_emotion_lexicon = self_emotion_lexicon self,
                 zs_language = self_language self, zs_tagger = current_model self,
                 zs_emotions = emotionslist, zs_lookup = self_lookup self,
                 zs_emojis_dict = self_emojis_dict self,
                 zs_convert_emojis = convert_emojis,
                 zs_idiomatic_tokens = self_idiomatic_tokens self\<rparr> of
              (z, lookup) \<Rightarrow>
                (Inr z, self\<lparr>self_baseline := rebuilt, self_lookup := lookup\<rparr>))"
      using assms by (simp add: zscores_def rebuilt zscores_call_def cm Let_def)
  next
    assume "arg_truthy baseline"
    then show "zscores env self obj baseline n_samples convert_emojis =
        (case es_zscores env
                \<lparr>zs_obj = obj,
                 zs_baseline = make_baseline env
                   \<lparr>mb_baseline = Some baseline, mb_language = Some (self_language self),
                    mb_emotion_lexicon = Some (self_emotion_lexicon self),
                    mb_tagger = Some (current_model self), mb_emojis_dict = None,
                    mb_idiomatic_tokens = None\<rparr>,
                 zs_n_samples = n_samples,
                 zs_emotion_lexicon = self_emotion_lexicon self,
                 zs_language = self_language self, zs_tagger = current_model self,
                 zs_emotions = emotionslist, zs_lookup = self_lookup self,
                 zs_emojis_dict = self_emojis_dict self,
                 zs_convert_emojis = convert_emojis,
                 zs_idiomatic_tokens = self_idiomatic_tokens self\<rparr> of
           (z, lookup) \<Rightarrow> (Inr z, self\<lparr>self_lookup := lookup\<rparr>))"
      using assms by (simp add: zscores_def per_call zscores_call_def)
  qed simp_all
qed

theorem zscores_falsy_baseline_witness:
  "(let s0 = init demo_modules ''english'' None ''plutchik'';
        s1 = s0\<lparr>self_baseline := []\<rparr>
    in fst (zscores demo_modules s0 [''happy''] (TextArg []) 300 True) =
         Inr (''lexicon baseline'', ''lemma lexicon'', 1)
     \<and> fst (zscores demo_modules s1 [''happy''] (ListArg []) 300 True) =
         Inr (''lexicon baseline'', ''lemma lexicon'', 1)
     \<and> self_baseline (snd (zscores demo_modules s1 [''happy''] (ListArg []) 300 True)) =
         ''lexicon baseline''
     \<and> fst (zscores demo_modules s0 [''happy''] (TextArg ''corpus'') 300 True) =
         Inr (''corpus'', ''lemma lexicon'', 1)
     \<and> self_baseline (snd (zscores demo_modules s0 [''happy''] (TextArg ''corpus'') 300 True)) =
         ''lexicon baseline'')"
proof -
  let ?s0 = "init demo_modules ''english'' None ''plutchik'' ::
    (string, string, string, string \<times> string \<times> nat) EmoScores"
  let ?s1 = "?s0\<lparr>self_baseline := []\<rparr>"
  note defs = init_def demo_modules_def demo_engine_def spec_zscores_def current_model_def
    Let_def
  have el0: "self_emotionslist ?s0 = Some plutchik"
    by (simp add: emotionslist_init)
  have el1: "self_emotionslist ?s1 = Some plutchik"
    by (simp add: emotionslist_init)
  note t0 = zscores_falsy_baseline
    [OF el0, where env = demo_modules and obj = "[''happy'']" and n_samples = 300
       and convert_emojis = True]
  note t1 = zscores_falsy_baseline
    [OF el1, where env = demo_modules and obj = "[''happy'']" and n_samples = 300
       and convert_emojis = True]
  have a: "fst (zscores demo_modules ?s0 [''happy''] (TextArg []) 300 True) =
      Inr (''lexicon baseline'', ''lemma lexicon'', 1)"
    using t0 [where baseline = "TextArg []", THEN conjunct2, THEN conjunct1]
    by (simp add: defs)
  have b: "fst (zscores demo_modules ?s1 [''happy''] (ListArg []) 300 True) =
        Inr (''lexicon baseline'', ''lemma lexicon'', 1)
      \<and> self_baseline (snd (zscores demo_modules ?s1 [''happy''] (ListArg []) 300 True)) =
        ''lexicon baseline''"
    using t1 [where baseline = "ListArg []", THEN conjunct2, THEN conjunct2, THEN conjunct1]
    by (simp add: defs)
  have c: "fst (zscores demo_modules ?s0 [''happy''] (TextArg ''corpus'') 300 True) =
        Inr (''corpus'', ''lemma lexicon'', 1)
      \<and> self_baseline (snd (zscores demo_modules ?s0 [''happy''] (TextArg ''corpus'') 300 True)) =
        ''lexicon baseline''"
    using t0 [where baseline = "TextArg ''corpus''", THEN conjunct2, THEN conjunct2,
        THEN conjunct2, THEN conjunct1]
    by (simp add: defs)
  show ?thesis
    unfolding Let_def using a b c by (intro conjI) simp_all
qed

text \<open>
  C2. After \<^verbatim>\<open>set_baseline\<close>, with any argument, the cache is empty. A call of \<^verbatim>\<open>zscores\<close>
  that follows, whatever the sample size and whatever the cache held before, takes no
  statistics from the cache: its z-scores come from a fresh sample of the baseline of
  the call, which then is the only entry of the cache.
\<close>

theorem set_baseline_resets_cache:
  "self_lookup (set_baseline env self baseline) = Map.empty
   \<and> zscores (env\<lparr>es_zscores := spec_zscores eng\<rparr>)
       (set_baseline (env\<lparr>es_zscores := spec_zscores eng\<rparr>) self baseline)
       obj baseline' n_samples convert_emojis =
     (case resolve_baseline (env\<lparr>es_zscores := spec_zscores eng\<rparr>)
             (set_baseline (env\<lparr>es_zscores := spec_zscores eng\<rparr>) self baseline) baseline' of
        (used, self') \<Rightarrow>
          (case self_emotionslist self of
             None \<Rightarrow> (Inl AttributeError, self')
           | Some emotionslist \<Rightarrow>
               (Inr (zscore_vector eng
                  (zscores_call self' obj used n_samples convert_emojis emotionslist)
                  (resample eng
                     (zscores_call self' obj used n_samples convert_emojis emotionslist)
                     (word_count eng obj))),
                self'\<lparr>self_lookup :=
                  [word_count eng obj \<mapsto>
                     resample eng
                       (zscores_call self' obj used n_samples convert_emojis emotionslist)
                       (word_count eng obj)]\<rparr>)))"
proof -
  let ?env = "env\<lparr>es_zscores := spec_zscores eng\<rparr>"
  let ?s = "set_baseline ?env self baseline"
  obtain used s1 where r: "resolve_baseline ?env ?s baseline' = (used, s1)"
    by (cases "resolve_baseline ?env ?s baseline'")
  have l: "self_lookup s1 = Map.empty"
    using r by (auto simp: resolve_baseline_def set_baseline_def Let_def split: if_splits)
  have e: "self_emotionslist s1 = self_emotionslist self"
    using emotionslist_resolve [of ?env ?s baseline'] by (simp add: r)
  have "self_lookup (set_baseline env self baseline) = Map.empty"
    by (simp add: set_baseline_def Let_def)
  moreover have "zscores ?env ?s obj baseline' n_samples convert_emojis =
     (case self_emotionslist self of
        None \<Rightarrow> (Inl AttributeError, s1)
      | Some emotionslist \<Rightarrow>
          (Inr (zscore_vector eng
             (zscores_call s1 obj used n_samples convert_emojis emotionslist)
             (resample eng (zscores_call s1 obj used n_samples convert_emojis emotionslist)
                (word_count eng obj))),
           s1\<lparr>self_lookup :=
             [word_count eng obj \<mapsto>
                resample eng (zscores_call s1 obj used n_samples convert_emojis emotionslist)
                  (word_count eng obj)]\<rparr>))"
    by (simp add: zscores_def r e [symmetric] spec_zscores_def Let_def l zscores_call_def
        split: option.split)
  ultimately show ?thesis
    by (simp add: r)
qed

text \<open>
  Two facts about every instance and every collaborator, with the engine of section 4.4:
  \<^verbatim>\<open>set_stemming_lemmatization\<close> leaves the cache as it is, and a call of \<^verbatim>\<open>zscores\<close>
  with a true baseline argument takes the statistics that the cache holds for the
  sample size, although they were not drawn from the baseline of the call.
\<close>

lemma set_stemming_keeps_cache:
  "self_lookup (set_stemming_lemmatization env self stem_or_lem) = self_lookup self
   \<and> self_baseline (set_stemming_lemmatization env self stem_or_lem) = self_baseline self"
  by (simp add: set_stemming_lemmatization_def Let_def)

lemma explicit_baseline_uses_cache:
  assumes "arg_truthy baseline"
      and "self_emotionslist self = Some emotionslist"
      and "self_lookup self (word_count eng obj) = Some stats"
  shows "fst (zscores (env\<lparr>es_zscores := spec_zscores eng\<rparr>) self obj baseline n_samples
            convert_emojis) =
     Inr (zscore_vector eng
       (zscores_call self obj
          (fst (resolve_baseline (env\<lparr>es_zscores := spec_zscores eng\<rparr>) self baseline))
          n_samples convert_emojis emotionslist)
       stats)"
proof -
  let ?env = "env\<lparr>es_zscores := spec_zscores eng\<rparr>"
  have r: "snd (resolve_baseline ?env self baseline) = self"
    using assms(1) by (simp add: resolve_baseline_def Let_def)
  have "fst (zscores ?env self obj baseline n_samples convert_emojis) =
      Inr (fst (es_zscores ?env
        (zscores_call (snd (resolve_baseline ?env self baseline)) obj
           (fst (resolve_baseline ?env self baseline)) n_samples convert_emojis emotionslist)))"
    using assms(2) by (rule zscores_with_list)
  then show ?thesis
    using assms(3) by (simp add: r spec_zscores_def Let_def zscores_call_def)
qed

text \<open>
  C1. The cache is not cleared when the baseline of a call or the mode changes. On the
  small instance: a first call of \<^verbatim>\<open>zscores\<close> on three words, with the stored baseline,
  caches statistics at size 3. A call with the baseline text \<open>corpus\<close> on three words
  returns the z-scores of these statistics, drawn from the stored baseline. After
  \<^verbatim>\<open>set_stemming_lemmatization\<close> the lexicon is another one, the entry is still in the
  cache, and \<^verbatim>\<open>zscores\<close> returns its z-scores. A call with the baseline text \<open>corpus\<close>
  on four words caches statistics drawn from \<open>corpus\<close> at size 4, and the next call
  with the stored baseline on four words returns their z-scores.
\<close>

theorem stale_cache_reused:
  "(let s0 = init demo_modules ''english'' None ''plutchik'';
        s1 = snd (zscores demo_modules s0 [''happy'', ''sad'', ''dog''] NoneArg 300 True);
        s2 = set_stemming_lemmatization demo_modules s1 ''stemming'';
        s3 = snd (zscores demo_modules s0 [''so'', ''very'', ''glad'', ''today'']
                    (TextArg ''corpus'') 300 True)
    in self_lookup s1 3 = Some (''lexicon baseline'', ''lemma lexicon'', 3)
     \<and> fst (zscores demo_modules s1 [''so'', ''very'', ''glad''] (TextArg ''corpus'') 300 True) =
         Inr (''lexicon baseline'', ''lemma lexicon'', 3)
     \<and> self_emotion_lexicon s2 = ''stemming lexicon''
     \<and> self_lookup s2 3 = Some (''lexicon baseline'', ''lemma lexicon'', 3)
     \<and> fst (zscores demo_modules s2 [''so'', ''very'', ''glad''] NoneArg 300 True) =
         Inr (''lexicon baseline'', ''lemma lexicon'', 3)
     \<and> self_baseline s3 = ''lexicon baseline''
     \<and> fst (zscores demo_modules s3 [''one'', ''two'', ''three'', ''four''] NoneArg 300 True) =
         Inr (''corpus'', ''lemma lexicon'', 4))"
  by (simp add: Let_def init_def zscores_def resolve_baseline_def zscores_call_def
      set_stemming_lemmatization_def current_model_def demo_modules_def demo_engine_def
      spec_zscores_def plutchik_def)

end
